theory Spec2Isabelle
  imports Complex_Main "HOL-Library.Word"
begin

section \<open>Host values\<close>

text \<open>
  The two source files are callbacks of a Node.js addon: they receive JavaScript values
  and answer with a return value or a pending exception. Machine integers are words:
  \<open>int32_t\<close> is what \<open>Int32Value()\<close> yields, \<open>size_t\<close> is taken as 64 bits wide.
  Pointers are addresses, \<open>0\<close> being \<open>NULL\<close>.
\<close>

type_synonym int32_t = "32 word"
type_synonym size_t = "64 word"
type_synonym pointer = nat

text \<open>
  A JavaScript number by its value: a finite double is the rational it denotes, the three
  other doubles are constructors of their own. Every double is one of these.
\<close>

datatype js_number = Finite rat | NaN | PosInfinity | NegInfinity

text \<open>\<open>TSNode\<close> and \<open>TSPoint\<close> of \<open>tree_sitter/runtime.h\<close>: the source reads the field
  \<open>data\<close> of a node and builds points from a row and a column.\<close>

record TSNode =
  data :: pointer
  offset :: nat

record TSPoint =
  row :: size_t
  column :: size_t

text \<open>The members \<open>node_\<close>, \<open>document_\<close> and \<open>parse_count_\<close> of class \<open>ASTNode\<close>
  (a name cannot end with an underscore here, hence the prefix).\<close>

record ASTNode =
  m_node :: TSNode
  m_document :: pointer
  m_parse_count :: size_t

text \<open>
  Values of the host. \<open>JObject\<close> is a plain object with its own data properties;
  \<open>JASTNode\<close> is an instance wrapping an \<open>ASTNode\<close> (the result of
  \<open>ASTNode::NewInstance\<close>), \<open>JASTNodeArray\<close> the instance
  \<open>ASTNodeArray::NewInstance\<close> makes from its four arguments, \<open>JDocument\<close> an
  instance wrapping a \<open>Document\<close>.
\<close>

datatype js_value =
    JUndefined
  | JNull
  | JBoolean bool
  | JNumber js_number
  | JString string
  | JFunction nat
  | JObject "(string \<times> js_value) list"
  | JASTNode ASTNode
  | JASTNodeArray TSNode pointer size_t bool
  | JDocument pointer

datatype js_error = TypeError string

fun IsNumber :: "js_value \<Rightarrow> bool" where
  "IsNumber (JNumber _) = True"
| "IsNumber _ = False"

fun IsFunction :: "js_value \<Rightarrow> bool" where
  "IsFunction (JFunction _) = True"
| "IsFunction _ = False"

fun IsNull :: "js_value \<Rightarrow> bool" where
  "IsNull JNull = True"
| "IsNull _ = False"

fun IsUndefined :: "js_value \<Rightarrow> bool" where
  "IsUndefined JUndefined = True"
| "IsUndefined _ = False"

fun IsFalse :: "js_value \<Rightarrow> bool" where
  "IsFalse (JBoolean b) = (\<not> b)"
| "IsFalse _ = False"

fun IsObject :: "js_value \<Rightarrow> bool" where
  "IsObject (JObject _) = True"
| "IsObject (JFunction _) = True"
| "IsObject (JASTNode _) = True"
| "IsObject (JASTNodeArray _ _ _ _) = True"
| "IsObject (JDocument _) = True"
| "IsObject _ = False"

text \<open>\<open>object->Get(key)\<close>: the property when the object has it, \<open>undefined\<close> otherwise.
  Only plain objects carry the keys the source asks for: on a string, a number or a
  boolean the lookup goes to the prototype of the wrapper, which has none of them. On
  \<open>undefined\<close> and \<open>null\<close> there is no lookup at all (see \<open>Edit\<close>); every other
  caller tests \<open>IsObject\<close> first.\<close>

fun Get :: "js_value \<Rightarrow> string \<Rightarrow> js_value" where
  "Get (JObject props) key = (case map_of props key of Some v \<Rightarrow> v | None \<Rightarrow> JUndefined)"
| "Get _ key = JUndefined"

text \<open>
  \<open>Int32Value()\<close> of a number is ECMAScript's ToInt32: NaN and the infinities give 0, a
  finite value is truncated towards zero and reduced modulo \<open>2 ^ 32\<close>. The source calls it
  behind \<open>IsNumber()\<close> only, so the last equation is never reached.
\<close>

definition truncate_rat :: "rat \<Rightarrow> int" where
  "truncate_rat q = (if 0 \<le> q then \<lfloor>q\<rfloor> else \<lceil>q\<rceil>)"

fun Int32Value :: "js_value \<Rightarrow> int32_t" where
  "Int32Value (JNumber (Finite q)) = word_of_int (truncate_rat q)"
| "Int32Value (JNumber _) = 0"
| "Int32Value _ = 0"

text \<open>The conversion of an \<open>int\<close> to \<open>size_t\<close> extends the sign.\<close>

definition size_t_of_int32 :: "int32_t \<Rightarrow> size_t" where
  "size_t_of_int32 i = scast i"

text \<open>The conversion of a \<open>size_t\<close> to \<open>int32_t\<close> keeps the low 32 bits.\<close>

definition int32_of_size_t :: "size_t \<Rightarrow> int32_t" where
  "int32_of_size_t n = ucast n"

text \<open>
  \<open>Nan::New<Integer>\<close> makes the number with the value of an \<open>int32_t\<close>, which every
  double holds exactly. \<open>Nan::New<Number>\<close> takes a double: a \<open>size_t\<close> is converted
  first, exactly when it has at most 53 significant bits, and rounded to the nearest
  multiple of the power of two that leaves 53 bits otherwise, a tie going to the even
  one.
\<close>

fun bit_length :: "nat \<Rightarrow> nat" where
  "bit_length n = (if n = 0 then 0 else Suc (bit_length (n div 2)))"

declare bit_length.simps [simp del]

definition double_of_nat :: "nat \<Rightarrow> rat" where
  "double_of_nat n =
     (let e = bit_length n - 53;
          q = n div 2 ^ e;
          r = n mod 2 ^ e
      in if 2 ^ e < 2 * r \<or> (2 * r = 2 ^ e \<and> odd q)
         then of_nat ((q + 1) * 2 ^ e) else of_nat (q * 2 ^ e))"

definition New_Integer :: "int32_t \<Rightarrow> js_value" where
  "New_Integer i = JNumber (Finite (of_int (sint i)))"

definition New_Number :: "size_t \<Rightarrow> js_value" where
  "New_Number n = JNumber (Finite (double_of_nat (unat n)))"

section \<open>Callbacks\<close>

text \<open>
  What a callback leaves behind: the return value it set (\<open>undefined\<close> when it set
  none) and the exception it scheduled, if any. A later throw replaces an earlier one.
\<close>

record callback_info =
  return_value :: js_value
  pending_exception :: "js_error option"

definition info0 :: callback_info where
  "info0 = \<lparr>return_value = JUndefined, pending_exception = None\<rparr>"

definition SetReturnValue :: "js_value \<Rightarrow> callback_info \<Rightarrow> callback_info" where
  "SetReturnValue v info = info\<lparr>return_value := v\<rparr>"

definition ThrowTypeError :: "string \<Rightarrow> callback_info \<Rightarrow> callback_info" where
  "ThrowTypeError msg info = info\<lparr>pending_exception := Some (TypeError msg)\<rparr>"

text \<open>\<open>info[i]\<close> is \<open>undefined\<close> beyond the arguments given.\<close>

definition arg :: "js_value list \<Rightarrow> nat \<Rightarrow> js_value" where
  "arg args i = (if i < length args then args ! i else JUndefined)"

section \<open>The engine, as the node handles see it\<close>

text \<open>
  The functions of \<open>tree_sitter/runtime.h\<close> that \<open>ast_node.cc\<close> calls are not part of the
  repository: they are parameters. An \<open>engine\<close> is the engine at the moment of the
  call, \<open>ts_document_parse_count\<close> reading the counter of the document at an address.
\<close>

record engine =
  ts_document_parse_count :: "pointer \<Rightarrow> size_t"
  ts_node_string :: "TSNode \<Rightarrow> pointer \<Rightarrow> string"
  ts_node_type :: "TSNode \<Rightarrow> pointer \<Rightarrow> string"
  ts_node_is_named :: "TSNode \<Rightarrow> bool"
  ts_node_start_byte :: "TSNode \<Rightarrow> size_t"
  ts_node_end_byte :: "TSNode \<Rightarrow> size_t"
  ts_node_start_point :: "TSNode \<Rightarrow> TSPoint"
  ts_node_end_point :: "TSNode \<Rightarrow> TSPoint"
  ts_node_parent :: "TSNode \<Rightarrow> TSNode"
  ts_node_next_sibling :: "TSNode \<Rightarrow> TSNode"
  ts_node_next_named_sibling :: "TSNode \<Rightarrow> TSNode"
  ts_node_prev_sibling :: "TSNode \<Rightarrow> TSNode"
  ts_node_prev_named_sibling :: "TSNode \<Rightarrow> TSNode"
  ts_node_descendant_for_byte_range :: "TSNode \<Rightarrow> size_t \<Rightarrow> size_t \<Rightarrow> TSNode"
  ts_node_named_descendant_for_byte_range :: "TSNode \<Rightarrow> size_t \<Rightarrow> size_t \<Rightarrow> TSNode"
  ts_node_descendant_for_point_range :: "TSNode \<Rightarrow> TSPoint \<Rightarrow> TSPoint \<Rightarrow> TSNode"
  ts_node_named_descendant_for_point_range :: "TSNode \<Rightarrow> TSPoint \<Rightarrow> TSPoint \<Rightarrow> TSNode"

section \<open>ast_node.cc\<close>

definition row_key :: string where
  "row_key = ''row''"

definition column_key :: string where
  "column_key = ''column''"

definition PointToJS :: "TSPoint \<Rightarrow> js_value" where
  "PointToJS point =
     JObject [(row_key, New_Number (row point)), (column_key, New_Number (column point))]"

definition PointFromJS :: "js_value \<Rightarrow> callback_info \<Rightarrow> TSPoint option \<times> callback_info" where
  "PointFromJS a info =
     (if \<not> IsObject a then
        (None, ThrowTypeError ''Point must be a {row, column} object'' info)
      else
        let js_row = Get a row_key;
            js_column = Get a column_key
        in if \<not> IsNumber js_row \<or> \<not> IsNumber js_column then (None, info)
           else (Some \<lparr>row = size_t_of_int32 (Int32Value js_row),
                       column = size_t_of_int32 (Int32Value js_column)\<rparr>, info))"

text \<open>The product \<open>Int32Value() * 2\<close> is computed on \<open>int\<close> and then converted to
  \<open>size_t\<close>. Where it leaves the range of \<open>int\<close> C++ leaves the result open; the
  model wraps around.\<close>

definition ByteIndexFromJSStringIndex ::
  "js_value \<Rightarrow> callback_info \<Rightarrow> size_t option \<times> callback_info" where
  "ByteIndexFromJSStringIndex input info =
     (if \<not> IsNumber input then
        (None, ThrowTypeError ''Character index must be a number'' info)
      else (Some (size_t_of_int32 (Int32Value input * 2)), info))"

text \<open>\<open>Nan::ObjectWrap::Unwrap<ASTNode>\<close>: the wrapped object, \<open>NULL\<close> when the receiver
  wraps none.\<close>

fun ObjectWrap_Unwrap :: "js_value \<Rightarrow> ASTNode option" where
  "ObjectWrap_Unwrap (JASTNode n) = Some n"
| "ObjectWrap_Unwrap _ = None"

definition Unwrap :: "js_value \<Rightarrow> ASTNode option" where
  "Unwrap object =
     (case ObjectWrap_Unwrap object of
        Some node \<Rightarrow> if data (m_node node) \<noteq> 0 then Some node else None
      | None \<Rightarrow> None)"

definition UnwrapValid :: "engine \<Rightarrow> js_value \<Rightarrow> ASTNode option" where
  "UnwrapValid eng object =
     (case Unwrap object of
        Some node \<Rightarrow>
          if m_parse_count node = ts_document_parse_count eng (m_document node)
          then Some node else None
      | None \<Rightarrow> None)"

definition NewInstance :: "TSNode \<Rightarrow> pointer \<Rightarrow> size_t \<Rightarrow> js_value" where
  "NewInstance node document parse_count =
     JASTNode \<lparr>m_node = node, m_document = document, m_parse_count = parse_count\<rparr>"

definition ToString :: "engine \<Rightarrow> js_value \<Rightarrow> callback_info" where
  "ToString eng this =
     (case UnwrapValid eng this of
        Some node \<Rightarrow>
          SetReturnValue (JString (ts_node_string eng (m_node node) (m_document node))) info0
      | None \<Rightarrow> info0)"

definition IsValid :: "engine \<Rightarrow> js_value \<Rightarrow> callback_info" where
  "IsValid eng this =
     (case Unwrap this of
        Some node \<Rightarrow>
          let result = (m_parse_count node = ts_document_parse_count eng (m_document node))
          in SetReturnValue (JBoolean result) info0
      | None \<Rightarrow> info0)"

definition NamedDescendantForIndex :: "engine \<Rightarrow> js_value \<Rightarrow> js_value list \<Rightarrow> callback_info" where
  "NamedDescendantForIndex eng this args =
     (case UnwrapValid eng this of
        None \<Rightarrow> info0
      | Some node \<Rightarrow>
          if length args = 1 then
            (case ByteIndexFromJSStringIndex (arg args 0) info0 of
               (None, info) \<Rightarrow> info
             | (Some v, info) \<Rightarrow>
                 SetReturnValue
                   (NewInstance (ts_node_named_descendant_for_byte_range eng (m_node node) v v)
                      (m_document node) (m_parse_count node)) info)
          else if length args = 2 then
            (case ByteIndexFromJSStringIndex (arg args 0) info0 of
               (maybe_min, info1) \<Rightarrow>
                 (case ByteIndexFromJSStringIndex (arg args 1) info1 of
                    (maybe_max, info2) \<Rightarrow>
                      (case maybe_min of
                         None \<Rightarrow> info2
                       | Some minv \<Rightarrow>
                           (case maybe_max of
                              None \<Rightarrow> info2
                            | Some maxv \<Rightarrow>
                                SetReturnValue
                                  (NewInstance
                                     (ts_node_named_descendant_for_byte_range eng (m_node node) minv maxv)
                                     (m_document node) (m_parse_count node)) info2))))
          else ThrowTypeError ''Must provide 1 or 2 character indices'' info0)"

definition DescendantForIndex :: "engine \<Rightarrow> js_value \<Rightarrow> js_value list \<Rightarrow> callback_info" where
  "DescendantForIndex eng this args =
     (case UnwrapValid eng this of
        None \<Rightarrow> info0
      | Some node \<Rightarrow>
          if length args = 1 then
            (case ByteIndexFromJSStringIndex (arg args 0) info0 of
               (None, info) \<Rightarrow> info
             | (Some v, info) \<Rightarrow>
                 SetReturnValue
                   (NewInstance (ts_node_descendant_for_byte_range eng (m_node node) v v)
                      (m_document node) (m_parse_count node)) info)
          else if length args = 2 then
            (case ByteIndexFromJSStringIndex (arg args 0) info0 of
               (maybe_min, info1) \<Rightarrow>
                 (case ByteIndexFromJSStringIndex (arg args 1) info1 of
                    (maybe_max, info2) \<Rightarrow>
                      (case maybe_min of
                         None \<Rightarrow> info2
                       | Some minv \<Rightarrow>
                           (case maybe_max of
                              None \<Rightarrow> info2
                            | Some maxv \<Rightarrow>
                                SetReturnValue
                                  (NewInstance
                                     (ts_node_descendant_for_byte_range eng (m_node node) minv maxv)
                                     (m_document node) (m_parse_count node)) info2))))
          else ThrowTypeError ''Must provide 1 or 2 character indices'' info0)"

definition NamedDescendantForPosition :: "engine \<Rightarrow> js_value \<Rightarrow> js_value list \<Rightarrow> callback_info" where
  "NamedDescendantForPosition eng this args =
     (case UnwrapValid eng this of
        None \<Rightarrow> info0
      | Some node \<Rightarrow>
          if length args = 1 then
            (case PointFromJS (arg args 0) info0 of
               (None, info) \<Rightarrow> info
             | (Some v, info) \<Rightarrow>
                 SetReturnValue
                   (NewInstance (ts_node_named_descendant_for_point_range eng (m_node node) v v)
                      (m_document node) (m_parse_count node)) info)
          else if length args = 2 then
            (case PointFromJS (arg args 0) info0 of
               (maybe_min, info1) \<Rightarrow>
                 (case PointFromJS (arg args 1) info1 of
                    (maybe_max, info2) \<Rightarrow>
                      (case maybe_min of
                         None \<Rightarrow> info2
                       | Some minv \<Rightarrow>
                           (case maybe_max of
                              None \<Rightarrow> info2
                            | Some maxv \<Rightarrow>
                                SetReturnValue
                                  (NewInstance
                                     (ts_node_named_descendant_for_point_range eng (m_node node) minv maxv)
                                     (m_document node) (m_parse_count node)) info2))))
          else ThrowTypeError ''Must provide 1 or 2 points'' info0)"

definition DescendantForPosition :: "engine \<Rightarrow> js_value \<Rightarrow> js_value list \<Rightarrow> callback_info" where
  "DescendantForPosition eng this args =
     (case UnwrapValid eng this of
        None \<Rightarrow> info0
      | Some node \<Rightarrow>
          if length args = 1 then
            (case PointFromJS (arg args 0) info0 of
               (None, info) \<Rightarrow> info
             | (Some v, info) \<Rightarrow>
                 SetReturnValue
                   (NewInstance (ts_node_descendant_for_point_range eng (m_node node) v v)
                      (m_document node) (m_parse_count node)) info)
          else if length args = 2 then
            (case PointFromJS (arg args 0) info0 of
               (maybe_min, info1) \<Rightarrow>
                 (case PointFromJS (arg args 1) info1 of
                    (maybe_max, info2) \<Rightarrow>
                      (case maybe_min of
                         None \<Rightarrow> info2
                       | Some minv \<Rightarrow>
                           (case maybe_max of
                              None \<Rightarrow> info2
                            | Some maxv \<Rightarrow>
                                SetReturnValue
                                  (NewInstance
                                     (ts_node_descendant_for_point_range eng (m_node node) minv maxv)
                                     (m_document node) (m_parse_count node)) info2))))
          else ThrowTypeError ''Must provide 1 or 2 points'' info0)"

definition Type :: "engine \<Rightarrow> js_value \<Rightarrow> callback_info" where
  "Type eng this =
     (case UnwrapValid eng this of
        Some node \<Rightarrow>
          (let result = ts_node_type eng (m_node node) (m_document node)
           in SetReturnValue (JString result) info0)
      | None \<Rightarrow> SetReturnValue JNull info0)"

definition IsNamed :: "engine \<Rightarrow> js_value \<Rightarrow> callback_info" where
  "IsNamed eng this =
     (case UnwrapValid eng this of
        Some node \<Rightarrow>
          (let result = ts_node_is_named eng (m_node node)
           in SetReturnValue (JBoolean result) info0)
      | None \<Rightarrow> SetReturnValue JNull info0)"

definition StartIndex :: "engine \<Rightarrow> js_value \<Rightarrow> callback_info" where
  "StartIndex eng this =
     (case UnwrapValid eng this of
        Some node \<Rightarrow>
          (let result = int32_of_size_t (ts_node_start_byte eng (m_node node) div 2)
           in SetReturnValue (New_Integer result) info0)
      | None \<Rightarrow> SetReturnValue JNull info0)"

definition EndIndex :: "engine \<Rightarrow> js_value \<Rightarrow> callback_info" where
  "EndIndex eng this =
     (case UnwrapValid eng this of
        Some node \<Rightarrow>
          (let result = int32_of_size_t (ts_node_end_byte eng (m_node node) div 2)
           in SetReturnValue (New_Integer result) info0)
      | None \<Rightarrow> SetReturnValue JNull info0)"

definition StartPosition :: "engine \<Rightarrow> js_value \<Rightarrow> callback_info" where
  "StartPosition eng this =
     (case UnwrapValid eng this of
        Some node \<Rightarrow>
          (let result = ts_node_start_point eng (m_node node)
           in SetReturnValue (PointToJS result) info0)
      | None \<Rightarrow> SetReturnValue JNull info0)"

definition EndPosition :: "engine \<Rightarrow> js_value \<Rightarrow> callback_info" where
  "EndPosition eng this =
     (case UnwrapValid eng this of
        Some node \<Rightarrow>
          (let result = ts_node_end_point eng (m_node node)
           in SetReturnValue (PointToJS result) info0)
      | None \<Rightarrow> SetReturnValue JNull info0)"

definition Children :: "engine \<Rightarrow> js_value \<Rightarrow> callback_info" where
  "Children eng this =
     (case UnwrapValid eng this of
        Some node \<Rightarrow>
          SetReturnValue
            (JASTNodeArray (m_node node) (m_document node) (m_parse_count node) False) info0
      | None \<Rightarrow> SetReturnValue JNull info0)"

definition NamedChildren :: "engine \<Rightarrow> js_value \<Rightarrow> callback_info" where
  "NamedChildren eng this =
     (case UnwrapValid eng this of
        Some node \<Rightarrow>
          SetReturnValue
            (JASTNodeArray (m_node node) (m_document node) (m_parse_count node) True) info0
      | None \<Rightarrow> SetReturnValue JNull info0)"

definition Parent :: "engine \<Rightarrow> js_value \<Rightarrow> callback_info" where
  "Parent eng this =
     (case UnwrapValid eng this of
        Some node \<Rightarrow>
          (let parent = ts_node_parent eng (m_node node)
           in if data parent \<noteq> 0 then
                SetReturnValue (NewInstance parent (m_document node) (m_parse_count node)) info0
              else SetReturnValue JNull info0)
      | None \<Rightarrow> SetReturnValue JNull info0)"

definition NextSibling :: "engine \<Rightarrow> js_value \<Rightarrow> callback_info" where
  "NextSibling eng this =
     (case UnwrapValid eng this of
        Some node \<Rightarrow>
          (let sibling = ts_node_next_sibling eng (m_node node)
           in if data sibling \<noteq> 0 then
                SetReturnValue (NewInstance sibling (m_document node) (m_parse_count node)) info0
              else SetReturnValue JNull info0)
      | None \<Rightarrow> SetReturnValue JNull info0)"

definition NextNamedSibling :: "engine \<Rightarrow> js_value \<Rightarrow> callback_info" where
  "NextNamedSibling eng this =
     (case UnwrapValid eng this of
        Some node \<Rightarrow>
          (let sibling = ts_node_next_named_sibling eng (m_node node)
           in if data sibling \<noteq> 0 then
                SetReturnValue (NewInstance sibling (m_document node) (m_parse_count node)) info0
              else SetReturnValue JNull info0)
      | None \<Rightarrow> SetReturnValue JNull info0)"

definition PreviousSibling :: "engine \<Rightarrow> js_value \<Rightarrow> callback_info" where
  "PreviousSibling eng this =
     (case UnwrapValid eng this of
        Some node \<Rightarrow>
          (let sibling = ts_node_prev_sibling eng (m_node node)
           in if data sibling \<noteq> 0 then
                SetReturnValue (NewInstance sibling (m_document node) (m_parse_count node)) info0
              else SetReturnValue JNull info0)
      | None \<Rightarrow> SetReturnValue JNull info0)"

definition PreviousNamedSibling :: "engine \<Rightarrow> js_value \<Rightarrow> callback_info" where
  "PreviousNamedSibling eng this =
     (case UnwrapValid eng this of
        Some node \<Rightarrow>
          (let sibling = ts_node_prev_named_sibling eng (m_node node)
           in if data sibling \<noteq> 0 then
                SetReturnValue (NewInstance sibling (m_document node) (m_parse_count node)) info0
              else SetReturnValue JNull info0)
      | None \<Rightarrow> SetReturnValue JNull info0)"

section \<open>The engine, as the document sees it\<close>

text \<open>\<open>TSInput\<close> and \<open>TSInputEdit\<close> of \<open>tree_sitter/runtime.h\<close>. A function pointer is
  the name of the function it points to.\<close>

datatype fn_ptr = NullFn | InputReader_Read | InputReader_Seek

datatype TSInputEncoding = TSInputEncodingUTF8 | TSInputEncodingUTF16

record TSInput =
  payload :: pointer
  read :: fn_ptr
  seek :: fn_ptr
  encoding :: TSInputEncoding

record TSInputEdit =
  position :: size_t
  chars_inserted :: size_t
  chars_removed :: size_t

text \<open>
  Modelled from the spec: the engine's document object (\<open>tree_sitter/runtime.h\<close> and the
  engine are not under src/), kept to what \<open>document.cc\<close> stores into it and reads back:
  the installed input and the edit descriptors it was handed, in order.
\<close>

record TSDocument =
  doc_input :: TSInput
  doc_edits :: "TSInputEdit list"

definition ts_document_new :: TSDocument where
  "ts_document_new =
     \<lparr>doc_input = \<lparr>payload = 0, read = NullFn, seek = NullFn, encoding = TSInputEncodingUTF8\<rparr>,
      doc_edits = []\<rparr>"

definition ts_document_input :: "TSDocument \<Rightarrow> TSInput" where
  "ts_document_input d = doc_input d"

definition ts_document_set_input :: "TSDocument \<Rightarrow> TSInput \<Rightarrow> TSDocument" where
  "ts_document_set_input d i = d\<lparr>doc_input := i\<rparr>"

definition ts_document_edit :: "TSDocument \<Rightarrow> TSInputEdit \<Rightarrow> TSDocument" where
  "ts_document_edit d e = d\<lparr>doc_edits := doc_edits d @ [e]\<rparr>"

section \<open>Input readers on the heap\<close>

text \<open>
  \<open>SetInput\<close> allocates an \<open>InputReader\<close> with \<open>new\<close> and releases one with
  \<open>delete\<close>. The heap maps the address of each live reader to the reader, which holds
  the host object it wraps; \<open>deleted\<close> lists the addresses handed to \<open>delete\<close>, in
  order; addresses are never used twice. \<open>document\<close> is what the member
  \<open>document_\<close> of class \<open>Document\<close> points to, \<open>document_freed\<close> whether
  \<open>ts_document_free\<close> has run on it.
\<close>

record InputReader =
  object :: js_value

record world =
  document :: TSDocument
  document_freed :: bool
  readers :: "pointer \<rightharpoonup> InputReader"
  next_address :: pointer
  deleted :: "pointer list"

definition new_InputReader :: "js_value \<Rightarrow> world \<Rightarrow> pointer \<times> world" where
  "new_InputReader input w =
     (next_address w,
      w\<lparr>readers := (readers w)(next_address w \<mapsto> \<lparr>object = input\<rparr>),
        next_address := Suc (next_address w)\<rparr>)"

definition delete_InputReader :: "pointer \<Rightarrow> world \<Rightarrow> world" where
  "delete_InputReader p w = w\<lparr>readers := (readers w)(p := None), deleted := deleted w @ [p]\<rparr>"

text \<open>
  Modelled from the spec: \<open>InputReader::Input()\<close> (\<open>input_reader.h\<close> is not under src/)
  gives the engine the reader as payload, with the reader's own \<open>seek\<close> and \<open>read\<close>;
  \<open>GetInput\<close> recognises an installed reader by that \<open>seek\<close>.
\<close>

definition InputReader_Input :: "pointer \<Rightarrow> TSInput" where
  "InputReader_Input input_reader =
     \<lparr>payload = input_reader, read = InputReader_Read, seek = InputReader_Seek,
      encoding = TSInputEncodingUTF16\<rparr>"

section \<open>document.cc\<close>

text \<open>The constructor \<open>Document::Document\<close>, on an empty heap.\<close>

definition Document_new :: world where
  "Document_new =
     \<lparr>document = ts_document_new, document_freed = False, readers = Map.empty,
      next_address = 1, deleted = []\<rparr>"

text \<open>The destructor \<open>Document::~Document\<close>.\<close>

definition Document_destroy :: "world \<Rightarrow> world" where
  "Document_destroy w =
     (let input = ts_document_input (document w);
          w1 = (if payload input \<noteq> 0 then delete_InputReader (payload input) w else w)
      in w1\<lparr>document_freed := True\<rparr>)"

definition SetInput :: "js_value \<Rightarrow> js_value list \<Rightarrow> world \<Rightarrow> callback_info \<times> world" where
  "SetInput this args w =
     (let input = arg args 0;
          info = SetReturnValue this info0
      in if IsNull input \<or> IsFalse input \<or> IsUndefined input then
           (info,
            w\<lparr>document := ts_document_set_input (document w)
                 \<lparr>payload = 0, read = NullFn, seek = NullFn, encoding = TSInputEncodingUTF16\<rparr>\<rparr>)
         else if \<not> IsObject input then
           (ThrowTypeError ''Input must be an object'' info, w)
         else if \<not> IsFunction (Get input ''seek'') then
           (ThrowTypeError ''Input must implement seek(n)'' info, w)
         else if \<not> IsFunction (Get input ''read'') then
           (ThrowTypeError ''Input must implement read(n)'' info, w)
         else
           let current_input = ts_document_input (document w);
               (input_reader, w1) = new_InputReader input w;
               w2 = w1\<lparr>document := ts_document_set_input (document w1)
                                     (InputReader_Input input_reader)\<rparr>;
               w3 = (if payload current_input \<noteq> 0
                     then delete_InputReader (payload current_input) w2 else w2)
           in (SetReturnValue this info, w3))"

text \<open>
  \<open>Document::Edit\<close> casts its argument to an object without a check and reads three
  properties of it. On a value that is neither \<open>undefined\<close> nor \<open>null\<close> the three
  reads succeed (\<open>Get\<close>). On \<open>undefined\<close> (also a call with no argument) and on
  \<open>null\<close> the host has no property to read: \<open>Get\<close> hands back an empty handle, and
  the call of \<open>IsNumber()\<close> through it ends the process. The callback does not return
  then: the result is \<open>None\<close>, the engine is handed nothing and the host gets no value.
\<close>

definition Edit :: "js_value \<Rightarrow> js_value list \<Rightarrow> world \<Rightarrow> (callback_info \<times> world) option" where
  "Edit this args w =
     (let a = arg args 0
      in if IsUndefined a \<or> IsNull a then None
         else
           let edit0 = \<lparr>position = 0, chars_inserted = 0, chars_removed = 0\<rparr>;
               js_position = Get a ''position'';
               edit1 = (if IsNumber js_position
                        then edit0\<lparr>position := size_t_of_int32 (Int32Value js_position)\<rparr>
                        else edit0);
               js_chars_removed = Get a ''charsRemoved'';
               edit2 = (if IsNumber js_chars_removed
                        then edit1\<lparr>chars_removed := size_t_of_int32 (Int32Value js_chars_removed)\<rparr>
                        else edit1);
               js_chars_inserted = Get a ''charsInserted'';
               edit3 = (if IsNumber js_chars_inserted
                        then edit2\<lparr>chars_inserted := size_t_of_int32 (Int32Value js_chars_inserted)\<rparr>
                        else edit2)
           in Some (SetReturnValue this info0,
                    w\<lparr>document := ts_document_edit (document w) edit3\<rparr>))"

section \<open>A concrete engine and handle\<close>

text \<open>An engine with one document at generation 3 and a one-node tree of four bytes, and
  a handle on that node made at generation 3: the inputs the general theorems are run on.\<close>

definition node0 :: ASTNode where
  "node0 = \<lparr>m_node = \<lparr>data = 1, offset = 0\<rparr>, m_document = 1, m_parse_count = 3\<rparr>"

definition engine0 :: engine where
  "engine0 =
     \<lparr>ts_document_parse_count = (\<lambda>d. 3),
      ts_node_string = (\<lambda>n d. ''(program)''),
      ts_node_type = (\<lambda>n d. ''program''),
      ts_node_is_named = (\<lambda>n. True),
      ts_node_start_byte = (\<lambda>n. 0),
      ts_node_end_byte = (\<lambda>n. 4),
      ts_node_start_point = (\<lambda>n. \<lparr>row = 0, column = 0\<rparr>),
      ts_node_end_point = (\<lambda>n. \<lparr>row = 0, column = 4\<rparr>),
      ts_node_parent = (\<lambda>n. \<lparr>data = 0, offset = 0\<rparr>),
      ts_node_next_sibling = (\<lambda>n. \<lparr>data = 0, offset = 0\<rparr>),
      ts_node_next_named_sibling = (\<lambda>n. \<lparr>data = 0, offset = 0\<rparr>),
      ts_node_prev_sibling = (\<lambda>n. \<lparr>data = 0, offset = 0\<rparr>),
      ts_node_prev_named_sibling = (\<lambda>n. \<lparr>data = 0, offset = 0\<rparr>),
      ts_node_descendant_for_byte_range = (\<lambda>n lo hi. n),
      ts_node_named_descendant_for_byte_range = (\<lambda>n lo hi. n),
      ts_node_descendant_for_point_range = (\<lambda>n lo hi. n),
      ts_node_named_descendant_for_point_range = (\<lambda>n lo hi. n)\<rparr>"

text \<open>The same engine after one more parse: the handle is stale there.\<close>

definition stale_engine0 :: engine where
  "stale_engine0 = engine0\<lparr>ts_document_parse_count := (\<lambda>d. 4)\<rparr>"

section \<open>Host sources for the document\<close>

text \<open>Two host objects with callable \<open>seek\<close> and \<open>read\<close>, as \<open>setInput\<close> accepts.\<close>

definition source0 :: js_value where
  "source0 = JObject [(''seek'', JFunction 1), (''read'', JFunction 2)]"

definition source1 :: js_value where
  "source1 = JObject [(''seek'', JFunction 3), (''read'', JFunction 4)]"

text \<open>
  A session on a fresh document: \<open>setInput(source0)\<close>, then either \<open>setInput(null)\<close>
  or \<open>setInput(source1)\<close>, then the destructor.
\<close>

definition world_installed :: world where
  "world_installed = snd (SetInput (JDocument 1) [source0] Document_new)"

definition world_reset :: world where
  "world_reset = snd (SetInput (JDocument 1) [JNull] world_installed)"

definition world_reset_destroyed :: world where
  "world_reset_destroyed = Document_destroy world_reset"

definition world_replaced :: world where
  "world_replaced = snd (SetInput (JDocument 1) [source1] world_installed)"

definition world_replaced_destroyed :: world where
  "world_replaced_destroyed = Document_destroy world_replaced"

text \<open>The descriptor \<open>{position: 3, charsRemoved: 1, charsInserted: 2}\<close>.\<close>

definition descriptor0 :: js_value where
  "descriptor0 =
     JObject [(''position'', JNumber (Finite 3)), (''charsRemoved'', JNumber (Finite 1)),
              (''charsInserted'', JNumber (Finite 2))]"

section \<open>The position codec in the spec's words\<close>

text \<open>
  These three definitions follow the specification, not the source: the unit width
  \<open>W = 2\<close>, the codec \<open>internal = external * W\<close>, and the edit descriptor that
  \<open>edit\<close> would hand to the engine if it translated its three fields with the codec.
\<close>

definition unit_width :: int where
  "unit_width = 2"

definition codec_internal :: "int \<Rightarrow> size_t" where
  "codec_internal external = word_of_int (external * unit_width)"

definition spec_edit :: "int \<Rightarrow> int \<Rightarrow> int \<Rightarrow> TSInputEdit" where
  "spec_edit pos removed inserted =
     \<lparr>position = codec_internal pos, chars_inserted = codec_internal inserted,
      chars_removed = codec_internal removed\<rparr>"

section \<open>The validity check\<close>

lemma UnwrapValid_Some_iff:
  "UnwrapValid eng this = Some node \<longleftrightarrow>
     this = JASTNode node \<and> data (m_node node) \<noteq> 0 \<and>
     m_parse_count node = ts_document_parse_count eng (m_document node)"
  by (cases this) (auto simp: UnwrapValid_def Unwrap_def split: option.splits if_splits)

lemma UnwrapValid_stale:
  "m_parse_count node \<noteq> ts_document_parse_count eng (m_document node) \<Longrightarrow>
   UnwrapValid eng (JASTNode node) = None"
  by (simp add: UnwrapValid_def Unwrap_def)

lemma UnwrapValid_node0: "UnwrapValid engine0 (JASTNode node0) = Some node0"
  by (simp add: UnwrapValid_def Unwrap_def node0_def engine0_def)

text \<open>
  Claim C4. \<open>isValid()\<close> of a handle that refers to a node returns exactly the boolean
  "the parse count captured at the handle's creation equals the document's current parse
  count", which is also whether the validity check \<open>UnwrapValid\<close> lets the handle
  through; and \<open>isValid()\<close> never leaves an exception pending, whatever the receiver.
\<close>

theorem IsValid_reports_version:
  "pending_exception (IsValid eng this) = None \<and>
   (Unwrap this = Some node \<longrightarrow>
      IsValid eng this =
        \<lparr>return_value = JBoolean (m_parse_count node = ts_document_parse_count eng (m_document node)),
         pending_exception = None\<rparr> \<and>
      return_value (IsValid eng this) = JBoolean (UnwrapValid eng this \<noteq> None))"
  by (auto simp: IsValid_def UnwrapValid_def info0_def SetReturnValue_def Let_def split: option.splits)

theorem IsValid_reports_version_witness:
  "Unwrap (JASTNode node0) = Some node0 \<and>
   IsValid engine0 (JASTNode node0) = \<lparr>return_value = JBoolean True, pending_exception = None\<rparr> \<and>
   IsValid stale_engine0 (JASTNode node0) =
     \<lparr>return_value = JBoolean False, pending_exception = None\<rparr>"
  using IsValid_reports_version [of engine0 "JASTNode node0" node0]
    IsValid_reports_version [of stale_engine0 "JASTNode node0" node0]
  by (simp add: Unwrap_def node0_def engine0_def stale_engine0_def)

section \<open>Stale handles\<close>

lemma ByteIndex_not_number:
  "\<not> IsNumber a \<Longrightarrow>
   ByteIndexFromJSStringIndex a info =
     (None, ThrowTypeError ''Character index must be a number'' info)"
  by (simp add: ByteIndexFromJSStringIndex_def)

lemma ByteIndex_number:
  "IsNumber a \<Longrightarrow>
   ByteIndexFromJSStringIndex a info = (Some (size_t_of_int32 (Int32Value a * 2)), info)"
  by (simp add: ByteIndexFromJSStringIndex_def)

lemma ThrowTypeError_info0:
  "ThrowTypeError msg info0 = \<lparr>return_value = JUndefined, pending_exception = Some (TypeError msg)\<rparr>"
  "ThrowTypeError msg \<lparr>return_value = v, pending_exception = e\<rparr> =
     \<lparr>return_value = v, pending_exception = Some (TypeError msg)\<rparr>"
  by (simp_all add: ThrowTypeError_def info0_def)

lemma SetReturnValue_info0:
  "SetReturnValue v info0 = \<lparr>return_value = v, pending_exception = None\<rparr>"
  by (simp add: SetReturnValue_def info0_def)

lemmas getter_defs =
  Type_def IsNamed_def StartIndex_def EndIndex_def StartPosition_def EndPosition_def
  Children_def NamedChildren_def Parent_def NextSibling_def NextNamedSibling_def
  PreviousSibling_def PreviousNamedSibling_def

lemma node0_stale:
  "m_parse_count node0 \<noteq> ts_document_parse_count stale_engine0 (m_document node0)"
  by (simp add: node0_def stale_engine0_def)

text \<open>
  Claim C5. On a handle whose captured parse count differs from the document's current
  parse count, each of the six enumerable accessors (\<open>startIndex\<close>, \<open>endIndex\<close>,
  \<open>startPosition\<close>, \<open>endPosition\<close>, \<open>type\<close>, \<open>isNamed\<close>) and each of the seven
  navigation accessors returns \<open>null\<close> with no exception pending, and \<open>toString()\<close>
  returns no value (\<open>undefined\<close>) with no exception pending.
\<close>

theorem stale_accessors_absent:
  assumes "m_parse_count node \<noteq> ts_document_parse_count eng (m_document node)"
  shows "StartIndex eng (JASTNode node) = \<lparr>return_value = JNull, pending_exception = None\<rparr> \<and>
         EndIndex eng (JASTNode node) = \<lparr>return_value = JNull, pending_exception = None\<rparr> \<and>
         StartPosition eng (JASTNode node) = \<lparr>return_value = JNull, pending_exception = None\<rparr> \<and>
         EndPosition eng (JASTNode node) = \<lparr>return_value = JNull, pending_exception = None\<rparr> \<and>
         Type eng (JASTNode node) = \<lparr>return_value = JNull, pending_exception = None\<rparr> \<and>
         IsNamed eng (JASTNode node) = \<lparr>return_value = JNull, pending_exception = None\<rparr> \<and>
         Parent eng (JASTNode node) = \<lparr>return_value = JNull, pending_exception = None\<rparr> \<and>
         Children eng (JASTNode node) = \<lparr>return_value = JNull, pending_exception = None\<rparr> \<and>
         NamedChildren eng (JASTNode node) = \<lparr>return_value = JNull, pending_exception = None\<rparr> \<and>
         NextSibling eng (JASTNode node) = \<lparr>return_value = JNull, pending_exception = None\<rparr> \<and>
         NextNamedSibling eng (JASTNode node) = \<lparr>return_value = JNull, pending_exception = None\<rparr> \<and>
         PreviousSibling eng (JASTNode node) = \<lparr>return_value = JNull, pending_exception = None\<rparr> \<and>
         PreviousNamedSibling eng (JASTNode node) = \<lparr>return_value = JNull, pending_exception = None\<rparr> \<and>
         ToString eng (JASTNode node) = \<lparr>return_value = JUndefined, pending_exception = None\<rparr>"
  using UnwrapValid_stale [OF assms]
  by (simp add: getter_defs ToString_def SetReturnValue_info0) (simp add: info0_def)

theorem stale_accessors_absent_witness:
  "m_parse_count node0 \<noteq> ts_document_parse_count stale_engine0 (m_document node0) \<and>
   Type stale_engine0 (JASTNode node0) = \<lparr>return_value = JNull, pending_exception = None\<rparr> \<and>
   StartIndex stale_engine0 (JASTNode node0) = \<lparr>return_value = JNull, pending_exception = None\<rparr> \<and>
   Parent stale_engine0 (JASTNode node0) = \<lparr>return_value = JNull, pending_exception = None\<rparr> \<and>
   ToString stale_engine0 (JASTNode node0) = \<lparr>return_value = JUndefined, pending_exception = None\<rparr>"
  using node0_stale stale_accessors_absent [OF node0_stale] by simp

text \<open>
  Claim C9. On a stale handle the four descendant queries return no value
  (\<open>undefined\<close>) and leave no exception pending whatever the argument list is: the
  validity check comes before the arity switch and the argument conversions.
\<close>

theorem stale_descendant_queries_ignore_arguments:
  assumes "m_parse_count node \<noteq> ts_document_parse_count eng (m_document node)"
  shows "DescendantForIndex eng (JASTNode node) args =
           \<lparr>return_value = JUndefined, pending_exception = None\<rparr> \<and>
         NamedDescendantForIndex eng (JASTNode node) args =
           \<lparr>return_value = JUndefined, pending_exception = None\<rparr> \<and>
         DescendantForPosition eng (JASTNode node) args =
           \<lparr>return_value = JUndefined, pending_exception = None\<rparr> \<and>
         NamedDescendantForPosition eng (JASTNode node) args =
           \<lparr>return_value = JUndefined, pending_exception = None\<rparr>"
  using UnwrapValid_stale [OF assms]
  by (simp add: DescendantForIndex_def NamedDescendantForIndex_def
        DescendantForPosition_def NamedDescendantForPosition_def info0_def)

theorem stale_descendant_queries_ignore_arguments_witness:
  "m_parse_count node0 \<noteq> ts_document_parse_count stale_engine0 (m_document node0) \<and>
   DescendantForIndex stale_engine0 (JASTNode node0) [] =
     \<lparr>return_value = JUndefined, pending_exception = None\<rparr> \<and>
   NamedDescendantForIndex stale_engine0 (JASTNode node0) [JString ''a''] =
     \<lparr>return_value = JUndefined, pending_exception = None\<rparr> \<and>
   DescendantForPosition stale_engine0 (JASTNode node0) [JNumber (Finite 5)] =
     \<lparr>return_value = JUndefined, pending_exception = None\<rparr> \<and>
   NamedDescendantForPosition stale_engine0 (JASTNode node0) [JNull, JNull, JNull] =
     \<lparr>return_value = JUndefined, pending_exception = None\<rparr>"
  using node0_stale
    stale_descendant_queries_ignore_arguments [OF node0_stale, of "[]"]
    stale_descendant_queries_ignore_arguments [OF node0_stale, of "[JString ''a'']"]
    stale_descendant_queries_ignore_arguments [OF node0_stale, of "[JNumber (Finite 5)]"]
    stale_descendant_queries_ignore_arguments [OF node0_stale, of "[JNull, JNull, JNull]"]
  by simp

section \<open>Argument checks of the index queries\<close>

text \<open>
  Claim C7. On a valid handle, \<open>descendantForIndex\<close> and \<open>namedDescendantForIndex\<close>
  called with no argument or with three or more throw the arity error (the TypeError
  "Must provide 1 or 2 character indices"); called with one or two arguments of which one
  is not a number they throw the type error (the TypeError "Character index must be a
  number").
\<close>

theorem DescendantForIndex_argument_errors:
  assumes "UnwrapValid eng this = Some node"
  shows "(length args = 0 \<or> 3 \<le> length args \<longrightarrow>
            DescendantForIndex eng this args =
              \<lparr>return_value = JUndefined,
               pending_exception = Some (TypeError ''Must provide 1 or 2 character indices'')\<rparr> \<and>
            NamedDescendantForIndex eng this args =
              \<lparr>return_value = JUndefined,
               pending_exception = Some (TypeError ''Must provide 1 or 2 character indices'')\<rparr>) \<and>
         ((length args = 1 \<or> length args = 2) \<and> (\<exists>a \<in> set args. \<not> IsNumber a) \<longrightarrow>
            DescendantForIndex eng this args =
              \<lparr>return_value = JUndefined,
               pending_exception = Some (TypeError ''Character index must be a number'')\<rparr> \<and>
            NamedDescendantForIndex eng this args =
              \<lparr>return_value = JUndefined,
               pending_exception = Some (TypeError ''Character index must be a number'')\<rparr>)"
proof (intro conjI impI)
  assume "length args = 0 \<or> 3 \<le> length args"
  then have arity: "length args \<noteq> 1" "length args \<noteq> 2" by auto
  show "DescendantForIndex eng this args =
          \<lparr>return_value = JUndefined,
           pending_exception = Some (TypeError ''Must provide 1 or 2 character indices'')\<rparr>"
    using assms arity by (simp add: DescendantForIndex_def ThrowTypeError_info0)
  show "NamedDescendantForIndex eng this args =
          \<lparr>return_value = JUndefined,
           pending_exception = Some (TypeError ''Must provide 1 or 2 character indices'')\<rparr>"
    using assms arity by (simp add: NamedDescendantForIndex_def ThrowTypeError_info0)
next
  assume bad: "(length args = 1 \<or> length args = 2) \<and> (\<exists>a \<in> set args. \<not> IsNumber a)"
  then consider a where "args = [a]" "\<not> IsNumber a"
    | a b where "args = [a, b]" "\<not> IsNumber a \<or> \<not> IsNumber b"
    by (cases args; cases "tl args"; cases "tl (tl args)") auto
  then have "DescendantForIndex eng this args =
          \<lparr>return_value = JUndefined,
           pending_exception = Some (TypeError ''Character index must be a number'')\<rparr> \<and>
        NamedDescendantForIndex eng this args =
          \<lparr>return_value = JUndefined,
           pending_exception = Some (TypeError ''Character index must be a number'')\<rparr>"
  proof cases
    case 1
    then show ?thesis
      using assms
      by (simp add: DescendantForIndex_def NamedDescendantForIndex_def arg_def
            ByteIndex_not_number ThrowTypeError_info0)
  next
    case 2
    then show ?thesis
      using assms
      by (cases "IsNumber a"; cases "IsNumber b")
         (simp_all add: DescendantForIndex_def NamedDescendantForIndex_def arg_def
            ByteIndex_not_number ByteIndex_number ThrowTypeError_info0)
  qed
  then show "DescendantForIndex eng this args =
          \<lparr>return_value = JUndefined,
           pending_exception = Some (TypeError ''Character index must be a number'')\<rparr>"
    and "NamedDescendantForIndex eng this args =
          \<lparr>return_value = JUndefined,
           pending_exception = Some (TypeError ''Character index must be a number'')\<rparr>"
    by simp_all
qed

theorem DescendantForIndex_argument_errors_witness:
  "UnwrapValid engine0 (JASTNode node0) = Some node0 \<and>
   DescendantForIndex engine0 (JASTNode node0) [] =
     \<lparr>return_value = JUndefined,
      pending_exception = Some (TypeError ''Must provide 1 or 2 character indices'')\<rparr> \<and>
   DescendantForIndex engine0 (JASTNode node0) [JNumber (Finite 0), JNumber (Finite 1), JNumber (Finite 2)] =
     \<lparr>return_value = JUndefined,
      pending_exception = Some (TypeError ''Must provide 1 or 2 character indices'')\<rparr> \<and>
   DescendantForIndex engine0 (JASTNode node0) [JString ''a''] =
     \<lparr>return_value = JUndefined,
      pending_exception = Some (TypeError ''Character index must be a number'')\<rparr> \<and>
   NamedDescendantForIndex engine0 (JASTNode node0) [JNumber (Finite 0), JString ''a''] =
     \<lparr>return_value = JUndefined,
      pending_exception = Some (TypeError ''Character index must be a number'')\<rparr>"
  using DescendantForIndex_argument_errors [OF UnwrapValid_node0, of "[]"]
    DescendantForIndex_argument_errors [OF UnwrapValid_node0,
      of "[JNumber (Finite 0), JNumber (Finite 1), JNumber (Finite 2)]"]
    DescendantForIndex_argument_errors [OF UnwrapValid_node0, of "[JString ''a'']"]
    DescendantForIndex_argument_errors [OF UnwrapValid_node0, of "[JNumber (Finite 0), JString ''a'']"]
  by (simp add: UnwrapValid_node0)

text \<open>
  Claim C8. \<open>descendantForIndex(i)\<close> and \<open>descendantForIndex(i, i)\<close> give the same
  result, and so do the named variants, for every receiver and every \<open>i\<close>; on a valid
  handle and a numeric \<open>i\<close> that result is the handle on the node the engine finds for
  the byte range from \<open>2 * i\<close> to \<open>2 * i\<close>.
\<close>

theorem DescendantForIndex_single_is_pair:
  "DescendantForIndex eng this [i] = DescendantForIndex eng this [i, i] \<and>
   NamedDescendantForIndex eng this [i] = NamedDescendantForIndex eng this [i, i] \<and>
   (UnwrapValid eng this = Some node \<and> IsNumber i \<longrightarrow>
      DescendantForIndex eng this [i, i] =
        \<lparr>return_value =
           NewInstance
             (ts_node_descendant_for_byte_range eng (m_node node)
                (size_t_of_int32 (Int32Value i * 2)) (size_t_of_int32 (Int32Value i * 2)))
             (m_document node) (m_parse_count node),
         pending_exception = None\<rparr> \<and>
      NamedDescendantForIndex eng this [i, i] =
        \<lparr>return_value =
           NewInstance
             (ts_node_named_descendant_for_byte_range eng (m_node node)
                (size_t_of_int32 (Int32Value i * 2)) (size_t_of_int32 (Int32Value i * 2)))
             (m_document node) (m_parse_count node),
         pending_exception = None\<rparr>)"
  by (cases "IsNumber i"; cases "UnwrapValid eng this")
     (simp_all add: DescendantForIndex_def NamedDescendantForIndex_def arg_def
        ByteIndex_not_number ByteIndex_number ThrowTypeError_info0 SetReturnValue_info0)

theorem DescendantForIndex_single_is_pair_witness:
  "UnwrapValid engine0 (JASTNode node0) = Some node0 \<and> IsNumber (JNumber (Finite 1)) \<and>
   DescendantForIndex engine0 (JASTNode node0) [JNumber (Finite 1)] =
     \<lparr>return_value = JASTNode node0, pending_exception = None\<rparr> \<and>
   DescendantForIndex engine0 (JASTNode node0) [JNumber (Finite 1), JNumber (Finite 1)] =
     \<lparr>return_value = JASTNode node0, pending_exception = None\<rparr>"
  using DescendantForIndex_single_is_pair [of engine0 "JASTNode node0" "JNumber (Finite 1)" node0]
  by (simp add: UnwrapValid_node0 NewInstance_def) (simp add: engine0_def node0_def)

section \<open>The position codec\<close>

lemma bit_length_le: "n < 2 ^ k \<Longrightarrow> bit_length n \<le> k"
proof (induction k arbitrary: n)
  case 0
  then have "n = 0" by simp
  then show ?case by (subst bit_length.simps) simp
next
  case (Suc k)
  show ?case
  proof (cases "n = 0")
    case True
    then show ?thesis by (subst bit_length.simps) simp
  next
    case False
    from Suc.prems have "n div 2 < 2 ^ k" by simp
    then have "bit_length (n div 2) \<le> k" by (rule Suc.IH)
    with False show ?thesis by (subst bit_length.simps) simp
  qed
qed

lemma double_of_nat_exact: "n < 2 ^ 53 \<Longrightarrow> double_of_nat n = of_nat n"
  using bit_length_le [of n 53] by (simp add: double_of_nat_def)

text \<open>Beyond 53 bits the conversion rounds: \<open>2 ^ 53 + 1\<close> goes down to \<open>2 ^ 53\<close>,
  \<open>2 ^ 53 + 3\<close> up to \<open>2 ^ 53 + 4\<close>.\<close>

lemma double_of_nat_rounds:
  "double_of_nat 9007199254740993 = 9007199254740992 \<and>
   double_of_nat 9007199254740995 = 9007199254740996"
  by (simp add: double_of_nat_def bit_length.simps Let_def)

lemma truncate_rat_of_int: "truncate_rat (of_int i) = i"
  by (simp add: truncate_rat_def)

lemma sint_word_of_int_32:
  assumes "- (2 ^ 31) \<le> k" and "k < 2 ^ 31"
  shows "sint (word_of_int k :: int32_t) = k"
proof -
  have "sint (word_of_int k :: int32_t) = signed_take_bit (LENGTH(32) - 1) k"
    by (rule sint_sbintrunc')
  also have "\<dots> = signed_take_bit 31 k" by simp
  also have "\<dots> = k"
    using assms by (intro signed_take_bit_int_eq_self) simp_all
  finally show ?thesis .
qed

lemma ByteIndex_in_range:
  assumes "- (2 ^ 30) \<le> i" and "i < 2 ^ 30"
  shows "size_t_of_int32 (Int32Value (JNumber (Finite (of_int i))) * 2) = word_of_int (i * 2)"
proof -
  have "Int32Value (JNumber (Finite (of_int i))) * 2 = (word_of_int (i * 2) :: int32_t)"
    by (simp add: truncate_rat_of_int)
  moreover have "sint (word_of_int (i * 2) :: int32_t) = i * 2"
    using assms by (intro sint_word_of_int_32) simp_all
  ultimately have "size_t_of_int32 (Int32Value (JNumber (Finite (of_int i))) * 2) =
      word_of_int (sint (word_of_int (i * 2) :: int32_t))"
    by (simp only: size_t_of_int32_def scast_eq)
  then show ?thesis
    using \<open>sint (word_of_int (i * 2) :: int32_t) = i * 2\<close> by (simp only:)
qed

lemma ByteIndex_unsigned:
  assumes "0 \<le> i" and "i < 2 ^ 30"
  shows "uint (word_of_int (i * 2) :: size_t) = i * 2"
proof -
  have "uint (word_of_int (i * 2) :: size_t) = take_bit LENGTH(64) (i * 2)"
    by (rule uint_word_of_int_eq)
  also have "\<dots> = i * 2"
    using assms by (intro take_bit_int_eq_self) simp_all
  finally show ?thesis .
qed

lemma index_of_byte_in_range:
  assumes "uint b div 2 < 2 ^ 31"
  shows "New_Integer (int32_of_size_t (b div 2)) = JNumber (Finite (of_int (uint b div 2)))"
proof -
  have nonneg: "0 \<le> uint b div 2" by simp
  have "int32_of_size_t (b div 2) = word_of_int (uint b div 2)"
    by (simp add: int32_of_size_t_def uint_div ucast_eq)
  moreover have "sint (word_of_int (uint b div 2) :: int32_t) = uint b div 2"
    using assms nonneg by (intro sint_word_of_int_32) linarith+
  ultimately have "sint (int32_of_size_t (b div 2)) = uint b div 2"
    by (simp only:)
  then show ?thesis by (simp add: New_Integer_def)
qed

text \<open>
  Claim C6. On a valid handle, \<open>startIndex\<close> and \<open>endIndex\<close> are the engine's start
  and end byte divided by 2, as long as the quotient fits the 32-bit integer the accessor
  returns; \<open>descendantForIndex\<close> and \<open>namedDescendantForIndex\<close> query the engine with
  each index multiplied by 2, called with one index or with two, for integer indices from
  0 to \<open>2 ^ 30 - 1\<close> (where the doubling stays within 32 bits); and
  \<open>descendantForIndex(0, 1)\<close> queries the byte range from 0 to 2.
\<close>

theorem index_accessors_use_unit_width:
  assumes "UnwrapValid eng this = Some node"
  shows "(uint (ts_node_start_byte eng (m_node node)) div 2 < 2 ^ 31 \<longrightarrow>
            StartIndex eng this =
              \<lparr>return_value =
                 JNumber (Finite (of_int (uint (ts_node_start_byte eng (m_node node)) div 2))),
               pending_exception = None\<rparr>) \<and>
         (uint (ts_node_end_byte eng (m_node node)) div 2 < 2 ^ 31 \<longrightarrow>
            EndIndex eng this =
              \<lparr>return_value =
                 JNumber (Finite (of_int (uint (ts_node_end_byte eng (m_node node)) div 2))),
               pending_exception = None\<rparr>) \<and>
         (0 \<le> i \<and> i < 2 ^ 30 \<and> 0 \<le> j \<and> j < 2 ^ 30 \<longrightarrow>
            DescendantForIndex eng this [JNumber (Finite (of_int i)), JNumber (Finite (of_int j))] =
              \<lparr>return_value =
                 NewInstance
                   (ts_node_descendant_for_byte_range eng (m_node node)
                      (word_of_int (i * 2)) (word_of_int (j * 2)))
                   (m_document node) (m_parse_count node),
               pending_exception = None\<rparr> \<and>
            NamedDescendantForIndex eng this [JNumber (Finite (of_int i)), JNumber (Finite (of_int j))] =
              \<lparr>return_value =
                 NewInstance
                   (ts_node_named_descendant_for_byte_range eng (m_node node)
                      (word_of_int (i * 2)) (word_of_int (j * 2)))
                   (m_document node) (m_parse_count node),
               pending_exception = None\<rparr> \<and>
            DescendantForIndex eng this [JNumber (Finite (of_int i))] =
              \<lparr>return_value =
                 NewInstance
                   (ts_node_descendant_for_byte_range eng (m_node node)
                      (word_of_int (i * 2)) (word_of_int (i * 2)))
                   (m_document node) (m_parse_count node),
               pending_exception = None\<rparr> \<and>
            NamedDescendantForIndex eng this [JNumber (Finite (of_int i))] =
              \<lparr>return_value =
                 NewInstance
                   (ts_node_named_descendant_for_byte_range eng (m_node node)
                      (word_of_int (i * 2)) (word_of_int (i * 2)))
                   (m_document node) (m_parse_count node),
               pending_exception = None\<rparr> \<and>
            uint (word_of_int (i * 2) :: size_t) = i * 2 \<and>
            uint (word_of_int (j * 2) :: size_t) = j * 2) \<and>
         DescendantForIndex eng this [JNumber (Finite 0), JNumber (Finite 1)] =
           \<lparr>return_value =
              NewInstance (ts_node_descendant_for_byte_range eng (m_node node) 0 2)
                (m_document node) (m_parse_count node),
            pending_exception = None\<rparr>"
proof (intro conjI impI)
  assume "uint (ts_node_start_byte eng (m_node node)) div 2 < 2 ^ 31"
  then show "StartIndex eng this =
      \<lparr>return_value = JNumber (Finite (of_int (uint (ts_node_start_byte eng (m_node node)) div 2))),
       pending_exception = None\<rparr>"
    using assms by (simp add: StartIndex_def index_of_byte_in_range SetReturnValue_info0)
next
  assume "uint (ts_node_end_byte eng (m_node node)) div 2 < 2 ^ 31"
  then show "EndIndex eng this =
      \<lparr>return_value = JNumber (Finite (of_int (uint (ts_node_end_byte eng (m_node node)) div 2))),
       pending_exception = None\<rparr>"
    using assms by (simp add: EndIndex_def index_of_byte_in_range SetReturnValue_info0)
next
  assume range: "0 \<le> i \<and> i < 2 ^ 30 \<and> 0 \<le> j \<and> j < 2 ^ 30"
  have i: "size_t_of_int32 (Int32Value (JNumber (Finite (of_int i))) * 2) = word_of_int (i * 2)"
    using range by (intro ByteIndex_in_range) simp_all
  have j: "size_t_of_int32 (Int32Value (JNumber (Finite (of_int j))) * 2) = word_of_int (j * 2)"
    using range by (intro ByteIndex_in_range) simp_all
  have conv: "ByteIndexFromJSStringIndex (JNumber (Finite (of_int i))) info = (Some (word_of_int (i * 2)), info)"
    "ByteIndexFromJSStringIndex (JNumber (Finite (of_int j))) info = (Some (word_of_int (j * 2)), info)"
    for info
    using i j by (simp_all only: ByteIndex_number IsNumber.simps)
  show "DescendantForIndex eng this [JNumber (Finite (of_int i)), JNumber (Finite (of_int j))] =
      \<lparr>return_value =
         NewInstance
           (ts_node_descendant_for_byte_range eng (m_node node)
              (word_of_int (i * 2)) (word_of_int (j * 2)))
           (m_document node) (m_parse_count node),
       pending_exception = None\<rparr>"
    using assms by (simp add: DescendantForIndex_def arg_def conv SetReturnValue_info0 del: of_int_mult)
  show "NamedDescendantForIndex eng this [JNumber (Finite (of_int i)), JNumber (Finite (of_int j))] =
      \<lparr>return_value =
         NewInstance
           (ts_node_named_descendant_for_byte_range eng (m_node node)
              (word_of_int (i * 2)) (word_of_int (j * 2)))
           (m_document node) (m_parse_count node),
       pending_exception = None\<rparr>"
    using assms by (simp add: NamedDescendantForIndex_def arg_def conv SetReturnValue_info0 del: of_int_mult)
  show "DescendantForIndex eng this [JNumber (Finite (of_int i))] =
      \<lparr>return_value =
         NewInstance
           (ts_node_descendant_for_byte_range eng (m_node node)
              (word_of_int (i * 2)) (word_of_int (i * 2)))
           (m_document node) (m_parse_count node),
       pending_exception = None\<rparr>"
    using assms by (simp add: DescendantForIndex_def arg_def conv SetReturnValue_info0 del: of_int_mult)
  show "NamedDescendantForIndex eng this [JNumber (Finite (of_int i))] =
      \<lparr>return_value =
         NewInstance
           (ts_node_named_descendant_for_byte_range eng (m_node node)
              (word_of_int (i * 2)) (word_of_int (i * 2)))
           (m_document node) (m_parse_count node),
       pending_exception = None\<rparr>"
    using assms by (simp add: NamedDescendantForIndex_def arg_def conv SetReturnValue_info0 del: of_int_mult)
  show "uint (word_of_int (i * 2) :: size_t) = i * 2"
    using range by (intro ByteIndex_unsigned) simp_all
  show "uint (word_of_int (j * 2) :: size_t) = j * 2"
    using range by (intro ByteIndex_unsigned) simp_all
next
  have "size_t_of_int32 (Int32Value (JNumber (Finite 0)) * 2) = 0"
    "size_t_of_int32 (Int32Value (JNumber (Finite 1)) * 2) = 2"
    by (simp_all add: truncate_rat_def size_t_of_int32_def)
  then show "DescendantForIndex eng this [JNumber (Finite 0), JNumber (Finite 1)] =
      \<lparr>return_value =
         NewInstance (ts_node_descendant_for_byte_range eng (m_node node) 0 2)
           (m_document node) (m_parse_count node),
       pending_exception = None\<rparr>"
    using assms
    by (simp add: DescendantForIndex_def arg_def ByteIndexFromJSStringIndex_def SetReturnValue_info0)
qed

theorem index_accessors_use_unit_width_witness:
  "UnwrapValid engine0 (JASTNode node0) = Some node0 \<and>
   uint (ts_node_start_byte engine0 (m_node node0)) div 2 < 2 ^ 31 \<and>
   uint (ts_node_end_byte engine0 (m_node node0)) div 2 < 2 ^ 31 \<and>
   (0::int) \<le> 0 \<and> (0::int) < 2 ^ 30 \<and> (0::int) \<le> 1 \<and> (1::int) < 2 ^ 30 \<and>
   StartIndex engine0 (JASTNode node0) =
     \<lparr>return_value = JNumber (Finite 0), pending_exception = None\<rparr> \<and>
   EndIndex engine0 (JASTNode node0) =
     \<lparr>return_value = JNumber (Finite 2), pending_exception = None\<rparr> \<and>
   DescendantForIndex engine0 (JASTNode node0) [JNumber (Finite 0), JNumber (Finite 1)] =
     \<lparr>return_value =
        NewInstance (ts_node_descendant_for_byte_range engine0 (m_node node0) 0 2)
          (m_document node0) (m_parse_count node0),
      pending_exception = None\<rparr>"
proof -
  have bytes: "ts_node_start_byte engine0 (m_node node0) = 0"
    "ts_node_end_byte engine0 (m_node node0) = 4"
    by (simp_all add: engine0_def)
  show ?thesis
    using index_accessors_use_unit_width [OF UnwrapValid_node0, of 0 1]
    by (simp add: UnwrapValid_node0 bytes)
qed

section \<open>Argument checks of the position queries\<close>

text \<open>A point argument that is not an object makes the query throw a TypeError.\<close>

lemma DescendantForPosition_non_object_throws:
  assumes "UnwrapValid eng this = Some node" and "\<not> IsObject a"
  shows "DescendantForPosition eng this [a] =
           \<lparr>return_value = JUndefined,
            pending_exception = Some (TypeError ''Point must be a {row, column} object'')\<rparr>"
  using assms
  by (simp add: DescendantForPosition_def arg_def PointFromJS_def ThrowTypeError_info0)

text \<open>
  Claim C3 asks for a type error whenever a point argument is not an object with numeric
  \<open>row\<close> and \<open>column\<close>. \<open>PointFromJS\<close> throws for a non-object only: for an object
  whose \<open>row\<close> or \<open>column\<close> is not a number it answers \<open>Nothing\<close> without throwing,
  and the query on a valid handle returns \<open>undefined\<close> with no exception pending. Here
  the row is the string "a", or the column is missing.
\<close>

theorem DescendantForPosition_non_numeric_row_returns_silently:
  "DescendantForPosition engine0 (JASTNode node0)
     [JObject [(''row'', JString ''a''), (''column'', JNumber (Finite 0))]] =
     \<lparr>return_value = JUndefined, pending_exception = None\<rparr> \<and>
   NamedDescendantForPosition engine0 (JASTNode node0)
     [JObject [(''row'', JString ''a''), (''column'', JNumber (Finite 0))]] =
     \<lparr>return_value = JUndefined, pending_exception = None\<rparr> \<and>
   DescendantForPosition engine0 (JASTNode node0)
     [JObject [(''row'', JNumber (Finite 0))]] =
     \<lparr>return_value = JUndefined, pending_exception = None\<rparr>"
  by (simp add: DescendantForPosition_def NamedDescendantForPosition_def UnwrapValid_node0
        arg_def PointFromJS_def row_key_def column_key_def info0_def)

section \<open>Editing\<close>

lemma size_t_of_int32_in_range:
  assumes "0 \<le> k" and "k < 2 ^ 31"
  shows "size_t_of_int32 (Int32Value (JNumber (Finite (of_int k)))) = word_of_int k"
proof -
  have "sint (word_of_int k :: int32_t) = k"
    using assms by (intro sint_word_of_int_32) linarith+
  then show ?thesis
    by (simp add: size_t_of_int32_def scast_eq truncate_rat_of_int)
qed

lemma uint_size_t_in_range:
  assumes "0 \<le> k" and "k < 2 ^ 31"
  shows "uint (word_of_int k :: size_t) = k"
proof -
  have "uint (word_of_int k :: size_t) = take_bit LENGTH(64) k"
    by (rule uint_word_of_int_eq)
  also have "\<dots> = k"
  proof (rule take_bit_int_eq_self)
    show "0 \<le> k" by (rule assms)
    have "(2::int) ^ 31 \<le> 2 ^ LENGTH(64)" by simp
    with assms show "k < 2 ^ LENGTH(64)" by linarith
  qed
  finally show ?thesis .
qed

text \<open>
  Claim C1, as stated, fails: \<open>Document::Edit\<close> does not translate. For the descriptor
  \<open>{position: 3, charsRemoved: 1, charsInserted: 2}\<close> the engine is handed the edit
  with position 3, one character removed and two inserted, not the edit with position 6,
  two removed and four inserted that the codec would give.
\<close>

theorem Edit_translated_counterexample:
  "Edit (JDocument 1) [descriptor0] Document_new =
     Some (\<lparr>return_value = JDocument 1, pending_exception = None\<rparr>,
           Document_new\<lparr>document :=
             ts_document_edit (document Document_new)
               \<lparr>position = 3, chars_inserted = 2, chars_removed = 1\<rparr>\<rparr>) \<and>
   Edit (JDocument 1) [descriptor0] Document_new \<noteq>
     Some (\<lparr>return_value = JDocument 1, pending_exception = None\<rparr>,
           Document_new\<lparr>document :=
             ts_document_edit (document Document_new) (spec_edit 3 1 2)\<rparr>)"
proof -
  have run: "Edit (JDocument 1) [descriptor0] Document_new =
     Some (\<lparr>return_value = JDocument 1, pending_exception = None\<rparr>,
           Document_new\<lparr>document :=
             ts_document_edit (document Document_new)
               \<lparr>position = 3, chars_inserted = 2, chars_removed = 1\<rparr>\<rparr>)"
    by (simp add: Edit_def arg_def descriptor0_def truncate_rat_def size_t_of_int32_def
          SetReturnValue_info0)
  have differ: "doc_edits (ts_document_edit (document Document_new)
                   \<lparr>position = 3, chars_inserted = 2, chars_removed = 1\<rparr>) \<noteq>
                doc_edits (ts_document_edit (document Document_new) (spec_edit 3 1 2))"
    by (simp add: ts_document_edit_def spec_edit_def codec_internal_def unit_width_def)
  have "Document_new\<lparr>document :=
             ts_document_edit (document Document_new)
               \<lparr>position = 3, chars_inserted = 2, chars_removed = 1\<rparr>\<rparr> \<noteq>
        Document_new\<lparr>document :=
             ts_document_edit (document Document_new) (spec_edit 3 1 2)\<rparr>"
  proof
    assume "Document_new\<lparr>document :=
             ts_document_edit (document Document_new)
               \<lparr>position = 3, chars_inserted = 2, chars_removed = 1\<rparr>\<rparr> =
        Document_new\<lparr>document :=
             ts_document_edit (document Document_new) (spec_edit 3 1 2)\<rparr>"
    then have "document (Document_new\<lparr>document :=
             ts_document_edit (document Document_new)
               \<lparr>position = 3, chars_inserted = 2, chars_removed = 1\<rparr>\<rparr>) =
        document (Document_new\<lparr>document :=
             ts_document_edit (document Document_new) (spec_edit 3 1 2)\<rparr>)"
      by (rule arg_cong)
    with differ show False by simp
  qed
  with run show ?thesis by simp
qed

text \<open>
  Claim C1, amended. For every call to \<open>edit(descriptor)\<close> on an object descriptor whose
  \<open>position\<close>, \<open>charsRemoved\<close> and \<open>charsInserted\<close> are integers from 0 to
  \<open>2 ^ 31 - 1\<close>, the engine is handed an edit descriptor with exactly these three values,
  in external units: the fields are not multiplied by the unit width.
\<close>

theorem Edit_hands_fields_untranslated:
  assumes "map_of props ''position'' = Some (JNumber (Finite (of_int p)))"
    and "map_of props ''charsRemoved'' = Some (JNumber (Finite (of_int r)))"
    and "map_of props ''charsInserted'' = Some (JNumber (Finite (of_int i)))"
    and "0 \<le> p \<and> p < 2 ^ 31" and "0 \<le> r \<and> r < 2 ^ 31" and "0 \<le> i \<and> i < 2 ^ 31"
  shows "\<exists>e. Edit this [JObject props] w =
               Some (\<lparr>return_value = this, pending_exception = None\<rparr>,
                     w\<lparr>document := ts_document_edit (document w) e\<rparr>) \<and>
             uint (position e) = p \<and> uint (chars_removed e) = r \<and> uint (chars_inserted e) = i"
proof -
  let ?e = "\<lparr>position = word_of_int p, chars_inserted = word_of_int i,
             chars_removed = word_of_int r\<rparr> :: TSInputEdit"
  have conv: "size_t_of_int32 (Int32Value (JNumber (Finite (of_int p)))) = word_of_int p"
    "size_t_of_int32 (Int32Value (JNumber (Finite (of_int r)))) = word_of_int r"
    "size_t_of_int32 (Int32Value (JNumber (Finite (of_int i)))) = word_of_int i"
    using assms(4-6) by (simp_all only: size_t_of_int32_in_range)
  have "Edit this [JObject props] w =
          Some (\<lparr>return_value = this, pending_exception = None\<rparr>,
                w\<lparr>document := ts_document_edit (document w) ?e\<rparr>)"
    using assms(1-3)
    by (simp add: Edit_def arg_def conv SetReturnValue_info0 del: Int32Value.simps)
  moreover have "uint (position ?e) = p" "uint (chars_removed ?e) = r" "uint (chars_inserted ?e) = i"
    using assms(4-6) by (simp_all add: uint_size_t_in_range)
  ultimately show ?thesis by blast
qed

theorem Edit_hands_fields_untranslated_witness:
  "map_of [(''position'', JNumber (Finite 3)), (''charsRemoved'', JNumber (Finite 1)),
           (''charsInserted'', JNumber (Finite 2))] ''position'' = Some (JNumber (Finite (of_int 3))) \<and>
   (0::int) \<le> 3 \<and> (3::int) < 2 ^ 31 \<and>
   (\<exists>e. Edit (JDocument 1) [descriptor0] Document_new =
          Some (\<lparr>return_value = JDocument 1, pending_exception = None\<rparr>,
                Document_new\<lparr>document := ts_document_edit (document Document_new) e\<rparr>) \<and>
        uint (position e) = 3 \<and> uint (chars_removed e) = 1 \<and> uint (chars_inserted e) = 2)"
  using Edit_hands_fields_untranslated
    [of "[(''position'', JNumber (Finite 3)), (''charsRemoved'', JNumber (Finite 1)),
          (''charsInserted'', JNumber (Finite 2))]" 3 1 2 "JDocument 1" Document_new]
  by (simp add: descriptor0_def)




section \<open>Input readers: allocation and release\<close>

text \<open>
  Replacing one host source by another releases the first reader once, after the second
  is installed, and the destructor releases the second.
\<close>

lemmas world_defs =
  world_installed_def world_reset_def world_reset_destroyed_def world_replaced_def
  world_replaced_destroyed_def SetInput_def Document_destroy_def Document_new_def
  ts_document_new_def ts_document_input_def ts_document_set_input_def new_InputReader_def
  delete_InputReader_def InputReader_Input_def arg_def source0_def source1_def

lemma SetInput_replace_deletes_previous:
  "deleted world_installed = [] \<and> readers world_installed 1 = Some \<lparr>object = source0\<rparr> \<and>
   payload (doc_input (document world_replaced)) = 2 \<and>
   deleted world_replaced = [1] \<and> readers world_replaced 1 = None \<and>
   readers world_replaced 2 = Some \<lparr>object = source1\<rparr> \<and>
   deleted world_replaced_destroyed = [1, 2] \<and>
   readers world_replaced_destroyed 1 = None \<and> readers world_replaced_destroyed 2 = None"
  by (simp add: world_defs Let_def)

text \<open>
  Claim C2 asks that every installed reader is released exactly once, also on the
  \<open>setInput(none)\<close> path. That path returns after installing the empty input and never
  releases the reader it replaces: after \<open>setInput(source0)\<close>, \<open>setInput(null)\<close> and
  the destructor, the reader allocated for \<open>source0\<close> at address 1 is still on the heap
  and \<open>delete\<close> has never run.
\<close>

theorem SetInput_none_leaks_reader:
  "payload (doc_input (document world_installed)) = 1 \<and>
   readers world_installed 1 = Some \<lparr>object = source0\<rparr> \<and>
   payload (doc_input (document world_reset)) = 0 \<and>
   deleted world_reset = [] \<and>
   document_freed world_reset_destroyed \<and>
   readers world_reset_destroyed 1 = Some \<lparr>object = source0\<rparr> \<and>
   deleted world_reset_destroyed = []"
  by (simp add: world_defs Let_def)

end
